theory Spec2Isabelle
  imports Main "HOL-Library.Word"
begin

unbundle bit_operations_syntax

section \<open>SHA-256, the digest behind both \<open>generateHash\<close> functions\<close>

text \<open>
  The server calls \<^verbatim>\<open>crypto.createHash("sha256").update(data).digest("hex")\<close>, the client
  \<^verbatim>\<open>crypto.subtle.digest("SHA-256", new TextEncoder().encode(input))\<close>. Both are the
  platform's SHA-256 (FIPS 180-4) over the UTF-8 bytes of the string. The function is
  written out so that digests compute; no proof below looks inside it.

  A \<open>string\<close> stands for the UTF-8 encoding of the JavaScript string: one \<open>char\<close> per byte.
  JavaScript strings with an unpaired surrogate, which have no UTF-8 encoding of their own,
  are not represented.
\<close>

type_synonym byte = "8 word"
type_synonym w32 = "32 word"

definition utf8 :: "string \<Rightarrow> byte list" where
  "utf8 s = map of_char s"

definition Ch :: "w32 \<Rightarrow> w32 \<Rightarrow> w32 \<Rightarrow> w32" where
  "Ch x y z = (x AND y) XOR (NOT x AND z)"

definition Maj :: "w32 \<Rightarrow> w32 \<Rightarrow> w32 \<Rightarrow> w32" where
  "Maj x y z = (x AND y) XOR (x AND z) XOR (y AND z)"

definition bsig0 :: "w32 \<Rightarrow> w32" where
  "bsig0 x = word_rotr 2 x XOR word_rotr 13 x XOR word_rotr 22 x"

definition bsig1 :: "w32 \<Rightarrow> w32" where
  "bsig1 x = word_rotr 6 x XOR word_rotr 11 x XOR word_rotr 25 x"

definition ssig0 :: "w32 \<Rightarrow> w32" where
  "ssig0 x = word_rotr 7 x XOR word_rotr 18 x XOR drop_bit 3 x"

definition ssig1 :: "w32 \<Rightarrow> w32" where
  "ssig1 x = word_rotr 17 x XOR word_rotr 19 x XOR drop_bit 10 x"

text \<open>The round constants, in the eight rows of eight in which the standard prints them.\<close>

definition K256 :: "w32 list" where
  "K256 = concat
    [[0x428a2f98, 0x71374491, 0xb5c0fbcf, 0xe9b5dba5, 0x3956c25b, 0x59f111f1, 0x923f82a4, 0xab1c5ed5],
     [0xd807aa98, 0x12835b01, 0x243185be, 0x550c7dc3, 0x72be5d74, 0x80deb1fe, 0x9bdc06a7, 0xc19bf174],
     [0xe49b69c1, 0xefbe4786, 0x0fc19dc6, 0x240ca1cc, 0x2de92c6f, 0x4a7484aa, 0x5cb0a9dc, 0x76f988da],
     [0x983e5152, 0xa831c66d, 0xb00327c8, 0xbf597fc7, 0xc6e00bf3, 0xd5a79147, 0x06ca6351, 0x14292967],
     [0x27b70a85, 0x2e1b2138, 0x4d2c6dfc, 0x53380d13, 0x650a7354, 0x766a0abb, 0x81c2c92e, 0x92722c85],
     [0xa2bfe8a1, 0xa81a664b, 0xc24b8b70, 0xc76c51a3, 0xd192e819, 0xd6990624, 0xf40e3585, 0x106aa070],
     [0x19a4c116, 0x1e376c08, 0x2748774c, 0x34b0bcb5, 0x391c0cb3, 0x4ed8aa4a, 0x5b9cca4f, 0x682e6ff3],
     [0x748f82ee, 0x78a5636f, 0x84c87814, 0x8cc70208, 0x90befffa, 0xa4506ceb, 0xbef9a3f7, 0xc67178f2]]"

definition H256 :: "w32 list" where
  "H256 =
    [0x6a09e667, 0xbb67ae85, 0x3c6ef372, 0xa54ff53a, 0x510e527f, 0x9b05688c, 0x1f83d9ab, 0x5be0cd19]"

definition be64 :: "64 word \<Rightarrow> byte list" where
  "be64 w = map (\<lambda>k. ucast (drop_bit k w)) [56, 48, 40, 32, 24, 16, 8, 0]"

definition pad :: "byte list \<Rightarrow> byte list" where
  "pad m =
     m @ [0x80] @ replicate ((119 - length m mod 64) mod 64) 0 @ be64 (of_nat (8 * length m))"

fun to_words :: "byte list \<Rightarrow> w32 list" where
  "to_words (a # b # c # d # r) =
     (push_bit 24 (ucast a) OR push_bit 16 (ucast b) OR push_bit 8 (ucast c) OR ucast d)
       # to_words r"
| "to_words r = []"

primrec blocks :: "nat \<Rightarrow> byte list \<Rightarrow> byte list list" where
  "blocks 0 bs = []"
| "blocks (Suc n) bs = take 64 bs # blocks n (drop 64 bs)"

primrec schedule :: "nat \<Rightarrow> w32 list \<Rightarrow> w32 list" where
  "schedule 0 w = w"
| "schedule (Suc n) w =
     schedule n
       (w @ [ssig1 (w ! (length w - 2)) + w ! (length w - 7)
             + ssig0 (w ! (length w - 15)) + w ! (length w - 16)])"

fun round256 :: "w32 list \<Rightarrow> w32 \<times> w32 \<Rightarrow> w32 list" where
  "round256 [a, b, c, d, e, f, g, h] (k, w) =
     (let t1 = h + bsig1 e + Ch e f g + k + w;
          t2 = bsig0 a + Maj a b c
      in [t1 + t2, a, b, c, d + t1, e, f, g])"
| "round256 s kw = s"

definition compress :: "w32 list \<Rightarrow> byte list \<Rightarrow> w32 list" where
  "compress hs block =
     map2 (+) hs (foldl round256 hs (zip K256 (schedule 48 (to_words block))))"

definition be32 :: "w32 \<Rightarrow> byte list" where
  "be32 w = [ucast (drop_bit 24 w), ucast (drop_bit 16 w), ucast (drop_bit 8 w), ucast w]"

definition sha256 :: "byte list \<Rightarrow> byte list" where
  "sha256 m =
     (let p = pad m
      in concat (map be32 (foldl compress H256 (blocks (length p div 64) p))))"

definition hexdigit :: "nat \<Rightarrow> char" where
  "hexdigit n = ''0123456789abcdef'' ! (n mod 16)"

text \<open>\<^verbatim>\<open>digest("hex")\<close>: two lowercase hexadecimal digits per byte.\<close>

definition hex :: "byte list \<Rightarrow> string" where
  "hex bs = concat (map (\<lambda>b. [hexdigit (unat b div 16), hexdigit (unat b mod 16)]) bs)"

text \<open>The server's \<^verbatim>\<open>generateHash(data: string): string\<close>.\<close>

definition generateHash :: "string \<Rightarrow> string" where
  "generateHash d = hex (sha256 (utf8 d))"

section \<open>The record store (the Express server)\<close>

text \<open>
  JavaScript values that cross the HTTP boundary: request fields and JSON response bodies.
  \<open>JUndefined\<close> is what destructuring gives for a property that is absent.
\<close>

datatype jsval = JUndefined | JString string | JObject "(string \<times> jsval) list"

type_synonym jsobject = "(string \<times> jsval) list"

text \<open>\<^verbatim>\<open>const { k } = obj\<close>: the property, or \<^verbatim>\<open>undefined\<close>.\<close>

definition get_prop :: "string \<Rightarrow> jsobject \<Rightarrow> jsval" where
  "get_prop k obj = (case map_of obj k of None \<Rightarrow> JUndefined | Some v \<Rightarrow> v)"

text \<open>
  \<^verbatim>\<open>database.current\<close> is \<^verbatim>\<open>{ data, integrity }\<close>; an element of \<^verbatim>\<open>database.history\<close> has
  the same two fields and a \<^verbatim>\<open>timestamp\<close>.
\<close>

record stored =
  data :: string
  integrity :: string

record backup = stored +
  timestamp :: string

record store =
  current :: stored
  history :: "backup list"

text \<open>
  The module-level \<^verbatim>\<open>database\<close> once line 171 has run:
  \<^verbatim>\<open>database.current.integrity = generateHash(database.current.data)\<close>.
\<close>

definition database :: store where
  "database =
     \<lparr>current = \<lparr>data = ''Hello World'', integrity = generateHash ''Hello World''\<rparr>,
      history = []\<rparr>"

record reply =
  status :: nat
  body :: jsobject

text \<open>\<^verbatim>\<open>res.json(database.current)\<close>: the record as it is serialised.\<close>

definition json_of :: "stored \<Rightarrow> jsobject" where
  "json_of r = [(''data'', JString (data r)), (''integrity'', JString (integrity r))]"

text \<open>\<^verbatim>\<open>response.ok\<close> of the Fetch API.\<close>

definition ok :: "reply \<Rightarrow> bool" where
  "ok r = (200 \<le> status r \<and> status r \<le> 299)"

datatype error = TypeError

text \<open>
  \<^verbatim>\<open>hash.update(data)\<close> of Node's crypto takes a string (or a buffer, which JSON cannot
  carry) and throws \<^verbatim>\<open>TypeError\<close> on anything else.
\<close>

fun update_arg :: "jsval \<Rightarrow> error + string" where
  "update_arg (JString d) = Inr d"
| "update_arg v = Inl TypeError"

text \<open>\<^verbatim>\<open>app.get("/")\<close>\<close>

definition get_root :: "store \<Rightarrow> store \<times> reply" where
  "get_root db = (db, \<lparr>status = 200, body = json_of (current db)\<rparr>)"

text \<open>
  \<^verbatim>\<open>app.post("/")\<close>. The arguments are the clock reading that
  \<^verbatim>\<open>new Date().toISOString()\<close> would give, and the two fields destructured from
  \<^verbatim>\<open>req.body\<close>. \<open>Inl\<close> is an exception leaving the handler.
\<close>

definition post_root :: "string \<Rightarrow> jsval \<Rightarrow> jsval \<Rightarrow> store \<Rightarrow> store \<times> (error + reply)" where
  "post_root now data' hash db =
     (let currentHash = generateHash (data (current db)) in
      if currentHash \<noteq> integrity (current db) then
        (db, Inr \<lparr>status = 400,
                  body = [(''error'',
                           JString ''Current data integrity check failed. Update aborted.'')]\<rparr>)
      else
        case update_arg data' of
          Inl e \<Rightarrow> (db, Inl e)
        | Inr d \<Rightarrow>
            (let computedHash = generateHash d in
             if JString computedHash \<noteq> hash then
               (db, Inr \<lparr>status = 400,
                         body = [(''error'',
                                  JString ''Hash mismatch. Data integrity check failed.'')]\<rparr>)
             else
               (let db1 = db\<lparr>history := history db @
                            [\<lparr>data = data (current db), integrity = integrity (current db),
                              timestamp = now\<rparr>]\<rparr>;
                    db2 = db1\<lparr>current := (current db1)\<lparr>data := d\<rparr>\<rparr>;
                    db3 = db2\<lparr>current := (current db2)\<lparr>integrity := computedHash\<rparr>\<rparr>
                in (db3, Inr \<lparr>status = 200,
                              body = [(''message'', JString ''Data updated successfully.'')]\<rparr>))))"

text \<open>\<^verbatim>\<open>Array.prototype.pop\<close>: the last element and the shortened array; \<^verbatim>\<open>undefined\<close> on the empty array.\<close>

fun pop :: "'a list \<Rightarrow> 'a option \<times> 'a list" where
  "pop [] = (None, [])"
| "pop xs = (Some (last xs), butlast xs)"

text \<open>\<^verbatim>\<open>app.get("/backup")\<close>\<close>

definition get_backup :: "store \<Rightarrow> store \<times> reply" where
  "get_backup db =
     (if length (history db) = 0 then
        (db, \<lparr>status = 404, body = [(''error'', JString ''No backup available.'')]\<rparr>)
      else
        (let (previous, h) = pop (history db);
             db1 = db\<lparr>history := h\<rparr>
         in case previous of
              Some p \<Rightarrow>
                (let db2 = db1\<lparr>current := (current db1)\<lparr>data := data p\<rparr>\<rparr>;
                     db3 = db2\<lparr>current := (current db2)\<lparr>integrity := integrity p\<rparr>\<rparr>
                 in (db3, \<lparr>status = 200,
                           body = [(''message'', JString ''Backup restored successfully.''),
                                   (''current'', JObject (json_of (current db3)))]\<rparr>))
            | None \<Rightarrow>
                (db1, \<lparr>status = 500,
                       body = [(''error'', JString ''Failed to restore backup.'')]\<rparr>)))"

text \<open>\<^verbatim>\<open>app.post("/tamper")\<close>\<close>

definition post_tamper :: "store \<Rightarrow> store \<times> reply" where
  "post_tamper db =
     (db\<lparr>current := (current db)\<lparr>data := ''Tampered Data!''\<rparr>\<rparr>,
      \<lparr>status = 200, body = [(''message'', JString ''Data has been tampered with!'')]\<rparr>)"

text \<open>
  Sequences of store operations. \<open>Read\<close>, \<open>Write\<close> and \<open>Restore\<close> are the three operations
  of the store's interface; the fault injection of \<^verbatim>\<open>/tamper\<close> is not among them.
\<close>

datatype operation = Read | Write string jsval jsval | Restore

fun apply_operation :: "store \<Rightarrow> operation \<Rightarrow> store" where
  "apply_operation db Read = fst (get_root db)"
| "apply_operation db (Write now d h) = fst (post_root now d h db)"
| "apply_operation db Restore = fst (get_backup db)"

definition run :: "operation list \<Rightarrow> store \<Rightarrow> store" where
  "run ops db = foldl apply_operation db ops"

text \<open>\<open>n\<close> restores in a row, with the replies in the order they were given.\<close>

fun restores :: "nat \<Rightarrow> store \<Rightarrow> store \<times> reply list" where
  "restores 0 db = (db, [])"
| "restores (Suc n) db =
     (let (db1, r) = get_backup db;
          (db2, rs) = restores n db1
      in (db2, r # rs))"

section \<open>The integrity client (the React component)\<close>

text \<open>
  The component's state \<^verbatim>\<open>data\<close>, and what it did, in order: each \<^verbatim>\<open>setData\<close> and each
  \<^verbatim>\<open>alert\<close>. The state is declared a string, and holds whatever \<^verbatim>\<open>setData\<close> was given.
\<close>

datatype effect = SetData jsval | Alert string

record client =
  client_data :: jsval
  effects :: "effect list"

definition setData :: "jsval \<Rightarrow> client \<Rightarrow> client" where
  "setData v c = c\<lparr>client_data := v, effects := effects c @ [SetData v]\<rparr>"

definition alert :: "string \<Rightarrow> client \<Rightarrow> client" where
  "alert m c = c\<lparr>effects := effects c @ [Alert m]\<rparr>"

text \<open>
  \<^verbatim>\<open>new TextEncoder().encode(input)\<close>: the argument is converted to a string
  (\<^verbatim>\<open>undefined\<close> takes the parameter's default, the empty string) and encoded in UTF-8.
\<close>

fun encode :: "jsval \<Rightarrow> byte list" where
  "encode (JString s) = utf8 s"
| "encode JUndefined = []"
| "encode (JObject kv) = utf8 ''[object Object]''"

text \<open>\<^verbatim>\<open>byte.toString(16)\<close> and \<^verbatim>\<open>.padStart(n, c)\<close> with a one-character filler.\<close>

fun toString16 :: "nat \<Rightarrow> string" where
  "toString16 n =
     (if n < 16 then [hexdigit n] else toString16 (n div 16) @ [hexdigit (n mod 16)])"

definition padStart :: "nat \<Rightarrow> char \<Rightarrow> string \<Rightarrow> string" where
  "padStart n c s = replicate (n - length s) c @ s"

text \<open>The client's \<^verbatim>\<open>generateHash\<close> (lines 105-112).\<close>

definition generateHash_client :: "jsval \<Rightarrow> string" where
  "generateHash_client input =
     concat (map (\<lambda>byte. padStart 2 (CHR ''0'') (toString16 (unat byte)))
                 (sha256 (encode input)))"

text \<open>
  The client's three flows, on the pair of the store and the component. Every \<^verbatim>\<open>fetch\<close>
  is answered by the handler it addresses, and no other client acts between two requests
  of one flow; the \<^verbatim>\<open>catch\<close> branches, taken when the network fails, are outside the
  model.
\<close>

definition getData :: "store \<times> client \<Rightarrow> store \<times> client" where
  "getData w =
     (let (db, c) = w;
          (db1, response) = get_root db
      in (db1, setData (get_prop ''data'' (body response)) c))"

definition restoreBackup :: "store \<times> client \<Rightarrow> store \<times> client" where
  "restoreBackup w =
     (let (db, c) = w;
          (db1, backupResponse) = get_backup db
      in if \<not> ok backupResponse then
           (db1, alert ''No backup available to restore.'' c)
         else
           (let backupData = get_prop ''data'' (body backupResponse);
                (db2, c2) = getData (db1, setData backupData c)
            in (db2, alert ''Previous backup restored successfully.'' c2)))"

definition verifyData :: "store \<times> client \<Rightarrow> store \<times> client" where
  "verifyData w =
     (let (db, c) = w;
          (db1, response) = get_root db;
          serverData = get_prop ''data'' (body response);
          serverHash = get_prop ''integrity'' (body response);
          localHash = generateHash_client (client_data c);
          serverDataHash = generateHash_client serverData
      in if serverHash = JString localHash \<and> serverHash = JString serverDataHash then
           (db1, alert ''Data integrity verified: No tampering detected.'' c)
         else
           restoreBackup
             (db1, alert ''Data has been tampered with! Restoring previous backup...'' c))"

section \<open>Stores used as examples\<close>

text \<open>
  The scenario of the specification: the initial store after the client has submitted
  "Updated" with its correct hash; that store after the fault injection; and the store
  after a second accepted write.
\<close>

definition updated_store :: store where
  "updated_store =
     \<lparr>current = \<lparr>data = ''Updated'', integrity = generateHash ''Updated''\<rparr>,
      history = [\<lparr>data = ''Hello World'', integrity = generateHash ''Hello World'',
                  timestamp = ''2024-05-01T10:00:00.000Z''\<rparr>]\<rparr>"

definition tampered_store :: store where
  "tampered_store =
     \<lparr>current = \<lparr>data = ''Tampered Data!'', integrity = generateHash ''Updated''\<rparr>,
      history = [\<lparr>data = ''Hello World'', integrity = generateHash ''Hello World'',
                  timestamp = ''2024-05-01T10:00:00.000Z''\<rparr>]\<rparr>"

definition twice_updated_store :: store where
  "twice_updated_store =
     \<lparr>current = \<lparr>data = ''Updated again'', integrity = generateHash ''Updated again''\<rparr>,
      history = [\<lparr>data = ''Hello World'', integrity = generateHash ''Hello World'',
                  timestamp = ''2024-05-01T10:00:00.000Z''\<rparr>,
                 \<lparr>data = ''Updated'', integrity = generateHash ''Updated'',
                  timestamp = ''2024-05-01T10:05:00.000Z''\<rparr>]\<rparr>"

section \<open>The hash binding, as a predicate on stores\<close>

text \<open>
  The current record and every backup carry the hash of their own data. This is what
  every operation but the fault injection preserves.
\<close>

definition consistent :: "store \<Rightarrow> bool" where
  "consistent db =
     (integrity (current db) = generateHash (data (current db))
      \<and> list_all (\<lambda>e. integrity e = generateHash (data e)) (history db))"

section \<open>Auxiliary facts\<close>

declare toString16.simps [simp del]

lemma get_prop_json_of:
  "get_prop ''data'' (json_of r) = JString (data r)"
  "get_prop ''integrity'' (json_of r) = JString (integrity r)"
  by (simp_all add: get_prop_def json_of_def)

lemma hexdigit_0: "hexdigit 0 = CHR ''0''"
  by (simp add: hexdigit_def)

lemma toString16_byte:
  assumes "n < 256"
  shows "padStart 2 (CHR ''0'') (toString16 n) = [hexdigit (n div 16), hexdigit (n mod 16)]"
proof (cases "n < 16")
  case True
  then have "toString16 n = [hexdigit n]"
    by (simp add: toString16.simps)
  with True show ?thesis
    by (simp add: padStart_def hexdigit_0)
next
  case False
  with assms have small: "n div 16 < 16"
    by simp
  from False have "toString16 n = toString16 (n div 16) @ [hexdigit (n mod 16)]"
    by (subst toString16.simps) simp
  also from small have "toString16 (n div 16) = [hexdigit (n div 16)]"
    by (simp add: toString16.simps)
  finally show ?thesis
    by (simp add: padStart_def)
qed

lemma unat_byte: "unat (b :: byte) < 256"
  using unsigned_less [of b, where 'a = nat] by simp

lemma client_hex: "concat (map (\<lambda>byte. padStart 2 (CHR ''0'') (toString16 (unat byte))) bs) = hex bs"
  by (induction bs) (simp_all add: hex_def toString16_byte unat_byte)

lemma generateHash_client_string: "generateHash_client (JString s) = generateHash s"
  by (simp add: generateHash_client_def generateHash_def client_hex)

lemma post_root_current_bad:
  "generateHash (data (current db)) \<noteq> integrity (current db) \<Longrightarrow>
     post_root now d h db =
       (db, Inr \<lparr>status = 400,
                 body = [(''error'',
                          JString ''Current data integrity check failed. Update aborted.'')]\<rparr>)"
  by (simp add: post_root_def)

lemma post_root_mismatch:
  "generateHash (data (current db)) = integrity (current db) \<Longrightarrow>
   h \<noteq> JString (generateHash d) \<Longrightarrow>
     post_root now (JString d) h db =
       (db, Inr \<lparr>status = 400,
                 body = [(''error'', JString ''Hash mismatch. Data integrity check failed.'')]\<rparr>)"
  by (auto simp add: post_root_def)

lemma post_root_throws:
  "generateHash (data (current db)) = integrity (current db) \<Longrightarrow>
   update_arg d = Inl e \<Longrightarrow> post_root now d h db = (db, Inl e)"
  by (simp add: post_root_def)

lemma post_root_commit:
  "generateHash (data (current db)) = integrity (current db) \<Longrightarrow>
     post_root now (JString d) (JString (generateHash d)) db =
       (\<lparr>current = \<lparr>data = d, integrity = generateHash d\<rparr>,
         history = history db @
           [\<lparr>data = data (current db), integrity = integrity (current db), timestamp = now\<rparr>]\<rparr>,
        Inr \<lparr>status = 200, body = [(''message'', JString ''Data updated successfully.'')]\<rparr>)"
  by (simp add: post_root_def Let_def)

lemma get_backup_empty:
  "history db = [] \<Longrightarrow>
     get_backup db = (db, \<lparr>status = 404, body = [(''error'', JString ''No backup available.'')]\<rparr>)"
  by (simp add: get_backup_def)

lemma pop_nonempty: "xs \<noteq> [] \<Longrightarrow> pop xs = (Some (last xs), butlast xs)"
  by (cases xs) simp_all

lemma get_backup_nonempty:
  "history db \<noteq> [] \<Longrightarrow>
     get_backup db =
       (\<lparr>current = \<lparr>data = data (last (history db)), integrity = integrity (last (history db))\<rparr>,
         history = butlast (history db)\<rparr>,
        \<lparr>status = 200,
          body = [(''message'', JString ''Backup restored successfully.''),
                  (''current'',
                   JObject (json_of \<lparr>data = data (last (history db)),
                                      integrity = integrity (last (history db))\<rparr>))]\<rparr>)"
  by (simp add: get_backup_def pop_nonempty Let_def json_of_def)

subsection \<open>Repeated restores\<close>

lemma rev_last_butlast: "xs \<noteq> [] \<Longrightarrow> rev xs = last xs # rev (butlast xs)"
  by (induction xs rule: rev_induct) simp_all

lemma restores_upto:
  "n \<le> length (history db) \<Longrightarrow>
     restores n db =
       (if n = 0 then db
        else \<lparr>current = \<lparr>data = data (rev (history db) ! (n - 1)),
                          integrity = integrity (rev (history db) ! (n - 1))\<rparr>,
               history = take (length (history db) - n) (history db)\<rparr>,
        map (\<lambda>e. \<lparr>status = 200,
                    body = [(''message'', JString ''Backup restored successfully.''),
                            (''current'',
                             JObject (json_of \<lparr>data = data e, integrity = integrity e\<rparr>))]\<rparr>)
            (take n (rev (history db))))"
proof (induction n arbitrary: db)
  case 0
  then show ?case by simp
next
  case (Suc n)
  let ?h = "history db"
  let ?db1 = "\<lparr>current = \<lparr>data = data (last ?h), integrity = integrity (last ?h)\<rparr>,
               history = butlast ?h\<rparr>"
  from Suc.prems have ne: "?h \<noteq> []"
    by auto
  then have step: "fst (get_backup db) = ?db1"
    and r: "snd (get_backup db) = \<lparr>status = 200,
          body = [(''message'', JString ''Backup restored successfully.''),
                  (''current'',
                   JObject (json_of \<lparr>data = data (last ?h), integrity = integrity (last ?h)\<rparr>))]\<rparr>"
    by (simp_all add: get_backup_nonempty)
  from Suc.prems have le: "n \<le> length (history ?db1)"
    by simp
  have unfold: "restores (Suc n) db =
      (fst (restores n ?db1), snd (get_backup db) # snd (restores n ?db1))"
    using step by (simp add: case_prod_unfold Let_def)
  from ne have tk: "take (length (butlast ?h) - n) (butlast ?h) = take (length ?h - Suc n) ?h"
    by (simp add: take_butlast)
  show ?case
  proof (cases n)
    case 0
    with ne show ?thesis
      unfolding unfold r by (simp add: rev_last_butlast butlast_conv_take)
  next
    case (Suc m)
    with ne tk show ?thesis
      unfolding unfold r Suc.IH [OF le] by (simp add: rev_last_butlast)
  qed
qed

subsection \<open>Three digests, computed\<close>

lemma digest_Hello_World:
  "generateHash ''Hello World'' = ''a591a6d40bf420404a011733cfb7b190d62c65bf0bcda32b57b277d9ad9f146e''"
  by code_simp

lemma digest_Updated:
  "generateHash ''Updated'' = ''3a5ecca188c0579c00ee24cf3cab21bd02c15a06f7a70cc8e0a8ff2381dcbbfd''"
  by code_simp

lemma digest_Tampered_Data:
  "generateHash ''Tampered Data!'' = ''53dcb29d7ac05d7870c38f622979a8789bbb6041865c93f59233a994ba0ded96''"
  by code_simp

subsection \<open>The operations preserve the hash binding\<close>

lemma consistent_database: "consistent database"
  by (simp add: consistent_def database_def)

lemma consistent_post_root: "consistent db \<Longrightarrow> consistent (fst (post_root now d h db))"
  by (auto simp add: consistent_def post_root_def Let_def split: sum.splits)

lemma consistent_get_backup: "consistent db \<Longrightarrow> consistent (fst (get_backup db))"
proof (cases "history db = []")
  case True
  assume "consistent db"
  with True show ?thesis
    by (simp add: get_backup_empty)
next
  case False
  assume "consistent db"
  then have all: "\<forall>e \<in> set (history db). integrity e = generateHash (data e)"
    by (simp add: consistent_def list_all_iff)
  from False have "last (history db) \<in> set (history db)"
    by simp
  with all have "integrity (last (history db)) = generateHash (data (last (history db)))"
    by blast
  moreover from all have "\<forall>e \<in> set (butlast (history db)). integrity e = generateHash (data e)"
    by (blast dest: in_set_butlastD)
  ultimately show ?thesis
    using False by (simp add: get_backup_nonempty consistent_def list_all_iff)
qed

lemma consistent_apply_operation: "consistent db \<Longrightarrow> consistent (apply_operation db x)"
  by (cases x) (simp_all add: consistent_post_root consistent_get_backup get_root_def)

lemma consistent_run: "consistent db \<Longrightarrow> consistent (run ops db)"
  unfolding run_def by (induction ops arbitrary: db) (simp_all add: consistent_apply_operation)

subsection \<open>The client's restore, when the store has a backup\<close>

lemma restoreBackup_nonempty:
  "history db \<noteq> [] \<Longrightarrow>
     restoreBackup (db, c) =
       (\<lparr>current = \<lparr>data = data (last (history db)), integrity = integrity (last (history db))\<rparr>,
         history = butlast (history db)\<rparr>,
        \<lparr>client_data = JString (data (last (history db))),
          effects = effects c @
            [SetData JUndefined,
             SetData (JString (data (last (history db)))),
             Alert ''Previous backup restored successfully.'']\<rparr>)"
  by (simp add: restoreBackup_def get_backup_nonempty ok_def get_prop_def getData_def
      get_root_def json_of_def setData_def alert_def)

lemma restoreBackup_empty:
  "history db = [] \<Longrightarrow>
     restoreBackup (db, c) =
       (db, c\<lparr>effects := effects c @ [Alert ''No backup available to restore.'']\<rparr>)"
  by (simp add: restoreBackup_def get_backup_empty ok_def alert_def)

lemma restoreBackup_effects:
  "\<exists>x xs. effects (snd (restoreBackup (db, c))) = effects c @ x # xs"
  by (cases "history db = []") (simp_all add: restoreBackup_empty restoreBackup_nonempty)

section \<open>The claims\<close>

text \<open>
  C1. Whatever string the client holds and whatever state the store is in, \<open>verifyData\<close>
  reports "no tampering" (the verdict Intact) exactly when the integrity the server
  asserts equals the hash of the client's own data and equals the hash of the data the
  server stores; then it does nothing else. In every other case it reports tampering and
  runs \<open>restoreBackup\<close> at once. The alert it raises first tells the two verdicts apart.
\<close>

theorem verifyData_verdict:
  "verifyData (db, \<lparr>client_data = JString l, effects = es\<rparr>) =
     (if integrity (current db) = generateHash l
         \<and> integrity (current db) = generateHash (data (current db))
      then (db, \<lparr>client_data = JString l,
                 effects = es @ [Alert ''Data integrity verified: No tampering detected.'']\<rparr>)
      else restoreBackup
             (db, \<lparr>client_data = JString l,
                   effects = es @ [Alert ''Data has been tampered with! Restoring previous backup...'']\<rparr>))
   \<and> effects (snd (verifyData (db, \<lparr>client_data = JString l, effects = es\<rparr>))) ! length es =
       Alert (if integrity (current db) = generateHash l
                 \<and> integrity (current db) = generateHash (data (current db))
              then ''Data integrity verified: No tampering detected.''
              else ''Data has been tampered with! Restoring previous backup...'')"
proof -
  let ?c = "\<lparr>client_data = JString l, effects = es\<rparr>"
  let ?t = "\<lparr>client_data = JString l,
             effects = es @ [Alert ''Data has been tampered with! Restoring previous backup...'']\<rparr>"
  have eq: "verifyData (db, ?c) =
     (if integrity (current db) = generateHash l
         \<and> integrity (current db) = generateHash (data (current db))
      then (db, \<lparr>client_data = JString l,
                 effects = es @ [Alert ''Data integrity verified: No tampering detected.'']\<rparr>)
      else restoreBackup (db, ?t))"
    by (auto simp add: verifyData_def get_root_def get_prop_json_of generateHash_client_string
        alert_def)
  obtain x xs where "effects (snd (restoreBackup (db, ?t))) = effects ?t @ x # xs"
    using restoreBackup_effects by blast
  then have "effects (snd (restoreBackup (db, ?t))) ! length es =
      Alert ''Data has been tampered with! Restoring previous backup...''"
    by (simp add: nth_append)
  with eq show ?thesis
    by (auto simp add: nth_append)
qed

text \<open>
  C2. After an accepted write of \<open>d\<close> with its own hash, a read answers \<open>d\<close> with
  the integrity \<open>generateHash d\<close>; the history is the old history with one entry added at
  its end, and that entry holds the data and integrity the current record had before the
  write, with the clock reading of this write as its timestamp.
\<close>

theorem write_then_read:
  assumes "post_root now (JString d) (JString (generateHash d)) db = (db', Inr r)"
    and "ok r"
  shows "snd (get_root db') =
           \<lparr>status = 200,
             body = [(''data'', JString d), (''integrity'', JString (generateHash d))]\<rparr>
         \<and> current db' = \<lparr>data = d, integrity = generateHash d\<rparr>
         \<and> length (history db') = length (history db) + 1
         \<and> butlast (history db') = history db
         \<and> last (history db') =
             \<lparr>data = data (current db), integrity = integrity (current db), timestamp = now\<rparr>"
proof (cases "generateHash (data (current db)) = integrity (current db)")
  case True
  from assms(1) post_root_commit [OF True, of now d]
  have "db' = \<lparr>current = \<lparr>data = d, integrity = generateHash d\<rparr>,
               history = history db @
                 [\<lparr>data = data (current db), integrity = integrity (current db),
                   timestamp = now\<rparr>]\<rparr>"
    by simp
  then show ?thesis
    by (simp add: get_root_def json_of_def)
next
  case False
  from assms(1) post_root_current_bad [OF False, of now "JString d" "JString (generateHash d)"]
  have "status r = 400"
    by auto
  with assms(2) show ?thesis
    by (simp add: ok_def)
qed


theorem write_then_read_witness:
  "post_root ''2024-05-01T10:00:00.000Z'' (JString ''Updated'') (JString (generateHash ''Updated''))
       database =
     (updated_store,
      Inr \<lparr>status = 200, body = [(''message'', JString ''Data updated successfully.'')]\<rparr>)
   \<and> ok \<lparr>status = 200, body = [(''message'', JString ''Data updated successfully.'')]\<rparr>
   \<and> snd (get_root updated_store) =
       \<lparr>status = 200,
         body = [(''data'', JString ''Updated''),
                 (''integrity'', JString (generateHash ''Updated''))]\<rparr>
   \<and> current updated_store = \<lparr>data = ''Updated'', integrity = generateHash ''Updated''\<rparr>
   \<and> length (history updated_store) = length (history database) + 1
   \<and> butlast (history updated_store) = history database
   \<and> last (history updated_store) =
       \<lparr>data = data (current database), integrity = integrity (current database),
         timestamp = ''2024-05-01T10:00:00.000Z''\<rparr>"
proof -
  let ?r = "\<lparr>status = 200, body = [(''message'', JString ''Data updated successfully.'')]\<rparr>"
  have h1: "post_root ''2024-05-01T10:00:00.000Z'' (JString ''Updated'')
              (JString (generateHash ''Updated'')) database = (updated_store, Inr ?r)"
    by (simp add: post_root_def database_def updated_store_def)
  have h2: "ok ?r"
    by (simp add: ok_def)
  from write_then_read [OF h1 h2] show ?thesis
    using h1 h2 by blast
qed

text \<open>
  C3. When the current record is consistent and the submitted hash is not the hash of
  the submitted data, the write is answered 400 "Hash mismatch" and the store is returned
  as it was: same current record, same history.
\<close>

theorem write_hash_mismatch:
  assumes "generateHash (data (current db)) = integrity (current db)"
    and "hash \<noteq> JString (generateHash d)"
  shows "post_root now (JString d) hash db =
           (db, Inr \<lparr>status = 400,
                     body = [(''error'',
                              JString ''Hash mismatch. Data integrity check failed.'')]\<rparr>)
         \<and> current (fst (post_root now (JString d) hash db)) = current db
         \<and> history (fst (post_root now (JString d) hash db)) = history db"
  using assms by (simp add: post_root_mismatch)

theorem write_hash_mismatch_witness:
  "generateHash (data (current database)) = integrity (current database)
   \<and> JString (generateHash ''Hello World'') \<noteq> JString (generateHash ''Updated'')
   \<and> post_root ''2024-05-01T10:00:00.000Z'' (JString ''Updated'')
         (JString (generateHash ''Hello World'')) database =
       (database,
        Inr \<lparr>status = 400,
              body = [(''error'', JString ''Hash mismatch. Data integrity check failed.'')]\<rparr>)"
proof -
  have h1: "generateHash (data (current database)) = integrity (current database)"
    by (simp add: database_def)
  have h2: "JString (generateHash ''Hello World'') \<noteq> JString (generateHash ''Updated'')"
    by (simp add: digest_Hello_World digest_Updated)
  from write_hash_mismatch [OF h1 h2, of "''2024-05-01T10:00:00.000Z''"] show ?thesis
    using h1 h2 by blast
qed

text \<open>
  C4. When the current record's data no longer hashes to its integrity, every write,
  whatever it submits (a string or not, with any hash), is answered 400 "Current data
  integrity check failed" and the store is returned as it was.
\<close>

theorem write_on_corrupted_current:
  assumes "generateHash (data (current db)) \<noteq> integrity (current db)"
  shows "post_root now d hash db =
           (db, Inr \<lparr>status = 400,
                     body = [(''error'',
                              JString ''Current data integrity check failed. Update aborted.'')]\<rparr>)
         \<and> current (fst (post_root now d hash db)) = current db
         \<and> history (fst (post_root now d hash db)) = history db"
  using assms by (simp add: post_root_current_bad)

theorem write_on_corrupted_current_witness:
  "generateHash (data (current tampered_store)) \<noteq> integrity (current tampered_store)
   \<and> post_root ''2024-05-01T10:10:00.000Z'' (JString ''Fixed'') (JString (generateHash ''Fixed''))
         tampered_store =
       (tampered_store,
        Inr \<lparr>status = 400,
              body = [(''error'',
                       JString ''Current data integrity check failed. Update aborted.'')]\<rparr>)"
proof -
  have h: "generateHash (data (current tampered_store)) \<noteq> integrity (current tampered_store)"
    by (simp add: tampered_store_def digest_Tampered_Data digest_Updated)
  from write_on_corrupted_current [OF h, of "''2024-05-01T10:10:00.000Z''"] show ?thesis
    using h by blast
qed

text \<open>
  C5. On a store with backups, a restore takes the last backup out of the history, makes
  its data and integrity the current record (the timestamp is dropped), and answers 200
  with that record; the history is shorter by one. \<open>n\<close> restores in a row, for \<open>n\<close> up to
  the number of backups, answer the \<open>n\<close> latest backups from the newest back, and leave the
  \<open>n\<close>-th newest as the current record over the remaining history.
\<close>

theorem restore_pops_latest:
  assumes "0 < n" and "n \<le> length (history db)"
  shows "get_backup db =
           (\<lparr>current = \<lparr>data = data (last (history db)),
                          integrity = integrity (last (history db))\<rparr>,
             history = butlast (history db)\<rparr>,
            \<lparr>status = 200,
              body = [(''message'', JString ''Backup restored successfully.''),
                      (''current'',
                       JObject [(''data'', JString (data (last (history db)))),
                                (''integrity'', JString (integrity (last (history db))))])]\<rparr>)
         \<and> length (history (fst (get_backup db))) + 1 = length (history db)
         \<and> restores n db =
           (\<lparr>current = \<lparr>data = data (rev (history db) ! (n - 1)),
                          integrity = integrity (rev (history db) ! (n - 1))\<rparr>,
             history = take (length (history db) - n) (history db)\<rparr>,
            map (\<lambda>e. \<lparr>status = 200,
                        body = [(''message'', JString ''Backup restored successfully.''),
                                (''current'',
                                 JObject [(''data'', JString (data e)),
                                          (''integrity'', JString (integrity e))])]\<rparr>)
                (take n (rev (history db))))"
proof -
  from assms have ne: "history db \<noteq> []"
    by auto
  then have "length (butlast (history db)) + 1 = length (history db)"
    by simp
  with ne assms show ?thesis
    by (simp add: get_backup_nonempty restores_upto json_of_def)
qed

theorem restore_pops_latest_witness:
  "(0::nat) < 2 \<and> 2 \<le> length (history twice_updated_store)
   \<and> get_backup twice_updated_store =
       (updated_store\<lparr>history := butlast (history twice_updated_store)\<rparr>,
        \<lparr>status = 200,
          body = [(''message'', JString ''Backup restored successfully.''),
                  (''current'',
                   JObject [(''data'', JString ''Updated''),
                            (''integrity'', JString (generateHash ''Updated''))])]\<rparr>)
   \<and> restores 2 twice_updated_store =
       (database,
        [\<lparr>status = 200,
           body = [(''message'', JString ''Backup restored successfully.''),
                   (''current'',
                    JObject [(''data'', JString ''Updated''),
                             (''integrity'', JString (generateHash ''Updated''))])]\<rparr>,
         \<lparr>status = 200,
           body = [(''message'', JString ''Backup restored successfully.''),
                   (''current'',
                    JObject [(''data'', JString ''Hello World''),
                             (''integrity'', JString (generateHash ''Hello World''))])]\<rparr>])"
proof -
  have h1: "(0::nat) < 2"
    by simp
  have h2: "2 \<le> length (history twice_updated_store)"
    by (simp add: twice_updated_store_def)
  from restore_pops_latest [OF h1 h2] show ?thesis
    by (simp add: twice_updated_store_def updated_store_def database_def)
qed

text \<open>
  C6. On a store with no backup, a restore is answered 404 "No backup available" and
  the store is returned as it was.
\<close>

theorem restore_without_backup:
  assumes "history db = []"
  shows "get_backup db =
           (db, \<lparr>status = 404, body = [(''error'', JString ''No backup available.'')]\<rparr>)
         \<and> current (fst (get_backup db)) = current db
         \<and> history (fst (get_backup db)) = []"
  using assms by (simp add: get_backup_empty)

theorem restore_without_backup_witness:
  "history database = []
   \<and> get_backup database =
       (database, \<lparr>status = 404, body = [(''error'', JString ''No backup available.'')]\<rparr>)"
proof -
  have h: "history database = []"
    by (simp add: database_def)
  from restore_without_backup [OF h] show ?thesis
    using h by blast
qed

text \<open>
  C7. Whatever reads, writes and restores are applied to the initial store, in any order
  and with any arguments, the current record's integrity is the hash of its data.
\<close>

theorem hash_binding_invariant:
  "integrity (current (run ops database)) = generateHash (data (current (run ops database)))"
  using consistent_run [OF consistent_database, of ops] by (simp add: consistent_def)

text \<open>
  C8, as amended. The fault injection sets the current data to "Tampered Data!", keeps the
  integrity field and the history, and answers 200. Afterwards the stored integrity
  differs from the hash of the stored data exactly when the integrity held before differs
  from the hash of "Tampered Data!".
\<close>

theorem tamper_effect:
  "post_tamper db =
     (\<lparr>current = \<lparr>data = ''Tampered Data!'', integrity = integrity (current db)\<rparr>,
       history = history db\<rparr>,
      \<lparr>status = 200, body = [(''message'', JString ''Data has been tampered with!'')]\<rparr>)
   \<and> (generateHash (data (current (fst (post_tamper db))))
         \<noteq> integrity (current (fst (post_tamper db)))) =
       (integrity (current db) \<noteq> generateHash ''Tampered Data!'')"
  by (auto simp add: post_tamper_def)

text \<open>
  C8 as stated fails on the store reached from the initial one by an accepted write of the
  text "Tampered Data!" itself: the injection then changes nothing, and the stored
  integrity still is the hash of the stored data.
\<close>

theorem tamper_effect_counterexample:
  "generateHash
     (data (current (fst (post_tamper
        (run [Write ''2024-05-01T10:00:00.000Z'' (JString ''Tampered Data!'')
                (JString (generateHash ''Tampered Data!''))] database))))) =
   integrity (current (fst (post_tamper
        (run [Write ''2024-05-01T10:00:00.000Z'' (JString ''Tampered Data!'')
                (JString (generateHash ''Tampered Data!''))] database))))"
  by (simp add: run_def post_root_def database_def post_tamper_def)

text \<open>
  C9. The client's restore on the tampered store of the scenario, the client holding
  "Updated". The store answers 200 with the restored record under the key \<open>current\<close>; the
  client reads the key \<open>data\<close> of that answer, which is absent, so its first \<open>setData\<close>
  stores \<open>undefined\<close> and not the restored "Hello World". Only the refresh that follows
  brings the local copy to the store's current data.
\<close>

theorem restoreBackup_first_sets_undefined:
  "get_prop ''current'' (body (snd (get_backup tampered_store))) =
     JObject [(''data'', JString ''Hello World''),
              (''integrity'', JString (generateHash ''Hello World''))]
   \<and> get_prop ''data'' (body (snd (get_backup tampered_store))) = JUndefined
   \<and> restoreBackup (tampered_store, \<lparr>client_data = JString ''Updated'', effects = []\<rparr>) =
       (database,
        \<lparr>client_data = JString ''Hello World'',
          effects = [SetData JUndefined,
                     SetData (JString ''Hello World''),
                     Alert ''Previous backup restored successfully.'']\<rparr>)"
  by (simp add: restoreBackup_nonempty get_backup_nonempty tampered_store_def database_def
      get_prop_def json_of_def)

text \<open>
  C10. A restore is answered 404 when the history is empty and 200 otherwise, never 500:
  \<open>pop\<close> on a history that is not empty gives its last entry, so the branch that answers
  500 is not taken.
\<close>

theorem restore_never_500:
  "status (snd (get_backup db)) = (if history db = [] then 404 else 200)
   \<and> status (snd (get_backup db)) \<noteq> 500
   \<and> fst (pop (history db)) = (if history db = [] then None else Some (last (history db)))"
  by (simp add: get_backup_empty get_backup_nonempty pop_nonempty)

end
